theory Spec2Isabelle
  imports Main
begin

section \<open>Snake game core: data model\<close>

text \<open>
  Shallow embedding of \<^verbatim>\<open>src/snake_game/game/snake_engine.py\<close> and
  \<^verbatim>\<open>src/snake_game/game/levels.py\<close>. Python integers are unbounded, hence
  \<open>int\<close>; a grid coordinate is a pair of them. Python lists are HOL lists.
\<close>

type_synonym coord = "int \<times> int"

datatype Direction = UP | DOWN | LEFT | RIGHT

text \<open>The \<^verbatim>\<open>.value\<close> of each member of the enumeration.\<close>

fun direction_value :: "Direction \<Rightarrow> coord" where
  "direction_value UP = (0, -1)"
| "direction_value DOWN = (0, 1)"
| "direction_value LEFT = (-1, 0)"
| "direction_value RIGHT = (1, 0)"

text \<open>The exceptions the modelled code can raise.\<close>

datatype error = IndexError | ValueError

record Snake =
  body :: "coord list"
  direction :: Direction
  grow_pending :: bool

record Food =
  food_width :: int
  food_height :: int
  obstacles :: "coord list"
  position :: coord

text \<open>
  The attribute \<^verbatim>\<open>level_manager\<close> of \<^verbatim>\<open>GameState\<close> holds a
  \<^verbatim>\<open>LevelManager\<close>, whose only attribute is a constant table of speeds that is
  never written after construction; it is not a field of the record.
\<close>

record GameState =
  width :: int
  height :: int
  score :: int
  level :: int
  foods_eaten :: int
  foods_per_level :: int
  game_over :: bool
  game_won :: bool
  max_level :: int
  snake :: Snake
  food :: Food

subsection \<open>The Python standard library, as a parameter\<close>

text \<open>
  The code calls \<^verbatim>\<open>random.seed\<close>, \<^verbatim>\<open>random.randint\<close>,
  \<^verbatim>\<open>math.cos\<close>, \<^verbatim>\<open>math.sin\<close> and \<^verbatim>\<open>math.radians\<close>. They are
  not code of the repository, so they are a parameter of the model:
  \<^item> \<open>'g\<close> is the state of the module-level generator of \<^verbatim>\<open>random\<close>;
  \<^item> \<open>seed a\<close> is the state in which \<^verbatim>\<open>random.seed(a)\<close> leaves that generator
    (whatever its state was before);
  \<^item> \<open>draw g\<close> is one raw draw from the generator and the state after it;
  \<^item> \<open>int_cos r angle\<close> is \<^verbatim>\<open>int(r * math.cos(math.radians(angle)))\<close> and
    \<open>int_sin r angle\<close> is \<^verbatim>\<open>int(r * math.sin(math.radians(angle)))\<close>, whose
    values depend on floating-point rounding.
\<close>

record 'g pylib =
  seed :: "int \<Rightarrow> 'g"
  draw :: "'g \<Rightarrow> nat \<times> 'g"
  int_cos :: "int \<Rightarrow> int \<Rightarrow> int"
  int_sin :: "int \<Rightarrow> int \<Rightarrow> int"

text \<open>
  \<^verbatim>\<open>random.randint(a, b)\<close> returns an integer \<open>N\<close> with \<open>a \<le> N \<le> b\<close> and raises
  \<^verbatim>\<open>ValueError\<close> when the range is empty. Which \<open>N\<close> it is is the generator's
  business: the raw draw is reduced into the range.
\<close>

definition randint :: "'g pylib \<Rightarrow> int \<Rightarrow> int \<Rightarrow> 'g \<Rightarrow> error + (int \<times> 'g)" where
  "randint L a b g =
     (if b < a then Inl ValueError
      else (case draw L g of (r, g') \<Rightarrow> Inr (a + int r mod (b - a + 1), g')))"

text \<open>\<^verbatim>\<open>range(a, b)\<close> and \<^verbatim>\<open>range(a, b, step)\<close> for a positive step.\<close>

definition py_range :: "int \<Rightarrow> int \<Rightarrow> int list" where
  "py_range a b = [a..b - 1]"

definition py_range_step :: "int \<Rightarrow> int \<Rightarrow> int \<Rightarrow> int list" where
  "py_range_step a b st = filter (\<lambda>x. (x - a) mod st = 0) [a..b - 1]"

section \<open>Snake\<close>

definition Snake_init :: "int \<Rightarrow> int \<Rightarrow> Snake" where
  "Snake_init start_x start_y =
     \<lparr>body = [(start_x, start_y)], direction = RIGHT, grow_pending = False\<rparr>"

text \<open>
  \<^verbatim>\<open>self.body[0]\<close> raises \<^verbatim>\<open>IndexError\<close> on an empty body. After the
  \<^verbatim>\<open>insert\<close> the list is not empty, so \<^verbatim>\<open>pop()\<close> cannot fail.
\<close>

definition move :: "Snake \<Rightarrow> error + (coord \<times> Snake)" where
  "move s =
     (case body s of
        [] \<Rightarrow> Inl IndexError
      | (head_x, head_y) # rest \<Rightarrow>
          (case direction_value (direction s) of (dx, dy) \<Rightarrow>
             let new_head = (head_x + dx, head_y + dy);
                 s1 = s\<lparr>body := new_head # body s\<rparr>
             in if \<not> grow_pending s1
                then Inr (new_head, s1\<lparr>body := butlast (body s1)\<rparr>)
                else Inr (new_head, s1\<lparr>grow_pending := False\<rparr>)))"

definition change_direction :: "Snake \<Rightarrow> Direction \<Rightarrow> Snake" where
  "change_direction s new_direction =
     (if direction s = UP \<and> new_direction = DOWN then s
      else if direction s = DOWN \<and> new_direction = UP then s
      else if direction s = LEFT \<and> new_direction = RIGHT then s
      else if direction s = RIGHT \<and> new_direction = LEFT then s
      else s\<lparr>direction := new_direction\<rparr>)"

definition grow :: "Snake \<Rightarrow> Snake" where
  "grow s = s\<lparr>grow_pending := True\<rparr>"

definition check_self_collision :: "Snake \<Rightarrow> error + bool" where
  "check_self_collision s =
     (case body s of
        [] \<Rightarrow> Inl IndexError
      | head # rest \<Rightarrow> Inr (head \<in> set rest))"

definition get_head :: "Snake \<Rightarrow> error + coord" where
  "get_head s = (case body s of [] \<Rightarrow> Inl IndexError | head # rest \<Rightarrow> Inr head)"

definition get_body :: "Snake \<Rightarrow> coord list" where
  "get_body s = body s"

section \<open>LevelManager\<close>

text \<open>
  The loop of level 7: \<open>n\<close> iterations are left, each draws \<open>x\<close> then \<open>y\<close> and appends
  the pair. A \<^verbatim>\<open>ValueError\<close> of \<^verbatim>\<open>randint\<close> leaves the function.
\<close>

fun scatter_level7 ::
  "'g pylib \<Rightarrow> int \<Rightarrow> int \<Rightarrow> nat \<Rightarrow> coord list \<Rightarrow> 'g \<Rightarrow> error + (coord list \<times> 'g)" where
  "scatter_level7 L w h 0 obs g = Inr (obs, g)"
| "scatter_level7 L w h (Suc n) obs g =
     (case randint L 4 (w - 5) g of
        Inl e \<Rightarrow> Inl e
      | Inr (x, g1) \<Rightarrow>
          (case randint L 4 (h - 5) g1 of
             Inl e \<Rightarrow> Inl e
           | Inr (y, g2) \<Rightarrow> scatter_level7 L w h n (obs @ [(x, y)]) g2))"

text \<open>The scatter loop of the levels from 10 on: a pair already present is not added again.\<close>

fun scatter_level10 ::
  "'g pylib \<Rightarrow> int \<Rightarrow> int \<Rightarrow> nat \<Rightarrow> coord list \<Rightarrow> 'g \<Rightarrow> error + (coord list \<times> 'g)" where
  "scatter_level10 L w h 0 obs g = Inr (obs, g)"
| "scatter_level10 L w h (Suc n) obs g =
     (case randint L 3 (w - 4) g of
        Inl e \<Rightarrow> Inl e
      | Inr (x, g1) \<Rightarrow>
          (case randint L 3 (h - 4) g1 of
             Inl e \<Rightarrow> Inl e
           | Inr (y, g2) \<Rightarrow>
               scatter_level10 L w h n
                 (if (x, y) \<notin> set obs then obs @ [(x, y)] else obs) g2))"

text \<open>The patterns that use no generator, one definition per branch of the source.\<close>

definition obstacles_level2 :: "int \<Rightarrow> int \<Rightarrow> coord list" where
  "obstacles_level2 w h =
     (let mid_x = w div 2; mid_y = h div 2;
          vertical = concat (map (\<lambda>y. if 0 < y \<and> y < h - 1 then [(mid_x, y)] else [])
                               (py_range (mid_y - 2) (mid_y + 3)))
      in fold (\<lambda>x obs. if 0 < x \<and> x < w - 1 \<and> (x, mid_y) \<notin> set obs
                        then obs @ [(x, mid_y)] else obs)
              (py_range (mid_x - 3) (mid_x + 4)) vertical)"

definition obstacles_level3 :: "int \<Rightarrow> int \<Rightarrow> coord list" where
  "obstacles_level3 w h =
     concat (map (\<lambda>x. map (\<lambda>y. (x, y)) (py_range 3 6)) (py_range 3 8)) @
     concat (map (\<lambda>x. map (\<lambda>y. (x, y)) (py_range (h - 6) (h - 3)))
                 (py_range (w - 8) (w - 3)))"

definition obstacles_level4 :: "int \<Rightarrow> int \<Rightarrow> coord list" where
  "obstacles_level4 w h =
     concat (map (\<lambda>y. if y mod 4 = 0
                       then map (\<lambda>x. (x, y)) (py_range 4 (w - 10)) @
                            map (\<lambda>x. (x, y)) (py_range (w - 6) (w - 4))
                       else [])
                 (py_range 4 (h - 4)))"

definition obstacles_level5 :: "'g pylib \<Rightarrow> int \<Rightarrow> int \<Rightarrow> coord list" where
  "obstacles_level5 L w h =
     (let center_x = w div 2; center_y = h div 2
      in concat (map (\<lambda>r. concat (map (\<lambda>angle.
                   let x = center_x + int_cos L r angle;
                       y = center_y + int_sin L r angle
                   in if 1 < x \<and> x < w - 2 \<and> 1 < y \<and> y < h - 2 then [(x, y)] else [])
                 (py_range_step 0 360 30))) (py_range 1 4)))"

definition obstacles_level6 :: "int \<Rightarrow> int \<Rightarrow> coord list" where
  "obstacles_level6 w h =
     concat (map (\<lambda>x. [(x, 3), (x, h - 4)]) (py_range 3 (w - 3))) @
     concat (map (\<lambda>y. [(3, y), (w - 4, y)]) (py_range 3 (h - 3)))"

definition obstacles_level8 :: "int \<Rightarrow> int \<Rightarrow> coord list" where
  "obstacles_level8 w h =
     (let center_x = w div 2; center_y = h div 2; size = min w h div 4
      in concat (map (\<lambda>x. concat (map (\<lambda>y.
                   if \<bar>x - center_x\<bar> + \<bar>y - center_y\<bar> = size
                   then (if 1 < x \<and> x < w - 2 \<and> 1 < y \<and> y < h - 2 then [(x, y)] else [])
                   else [])
                 (py_range (center_y - size) (center_y + size + 1))))
               (py_range (center_x - size) (center_x + size + 1))))"

definition obstacles_level9 :: "int \<Rightarrow> int \<Rightarrow> coord list" where
  "obstacles_level9 w h =
     concat (map (\<lambda>x. concat (map (\<lambda>y. if y mod 4 \<noteq> 0 then [(x, y)] else [])
                                  (py_range 2 (h - 2))))
                 (py_range_step 5 (w - 5) 3)) @
     concat (map (\<lambda>y. concat (map (\<lambda>x. if x mod 4 \<noteq> 0 then [(x, y)] else [])
                                  (py_range 2 (w - 2))))
                 (py_range_step 5 (h - 5) 3))"

definition cross_level10 :: "int \<Rightarrow> int \<Rightarrow> coord list" where
  "cross_level10 w h =
     (let center_x = w div 2; center_y = h div 2
      in concat (map (\<lambda>i.
           (if 1 < center_x + i \<and> center_x + i < w - 2 then [(center_x + i, center_y)] else []) @
           (if 1 < center_y + i \<and> center_y + i < h - 2 then [(center_x, center_y + i)] else []))
         (py_range (- 2) 3)))"

text \<open>
  \<^verbatim>\<open>get_level_obstacles\<close> takes the generator state and returns it: the levels 7 and
  from 10 on reseed the module-level generator and draw from it, the others leave it alone.
  A level below 1 matches no branch and gives the empty list.
\<close>

definition get_level_obstacles ::
  "'g pylib \<Rightarrow> int \<Rightarrow> int \<Rightarrow> int \<Rightarrow> 'g \<Rightarrow> error + (coord list \<times> 'g)" where
  "get_level_obstacles L lv w h g =
     (if lv = 1 then Inr ([], g)
      else if lv = 2 then Inr (obstacles_level2 w h, g)
      else if lv = 3 then Inr (obstacles_level3 w h, g)
      else if lv = 4 then Inr (obstacles_level4 w h, g)
      else if lv = 5 then Inr (obstacles_level5 L w h, g)
      else if lv = 6 then Inr (obstacles_level6 w h, g)
      else if lv = 7 then
        scatter_level7 L w h (nat (min 20 ((w * h) div 20))) [] (seed L 42)
      else if lv = 8 then Inr (obstacles_level8 w h, g)
      else if lv = 9 then Inr (obstacles_level9 w h, g)
      else if lv \<ge> 10 then
        scatter_level10 L w h (nat (min (30 + lv) ((w * h) div 15)))
          (cross_level10 w h) (seed L lv)
      else Inr ([], g))"

section \<open>Food\<close>

text \<open>
  Both sampling loops are \<^verbatim>\<open>while True\<close>: they may run forever, which is the
  value \<open>None\<close>. \<open>Some (Inl e)\<close> is an exception, \<open>Some (Inr r)\<close> a normal return.
\<close>

partial_function (option) generate_position ::
  "'g pylib \<Rightarrow> int \<Rightarrow> int \<Rightarrow> coord list \<Rightarrow> 'g \<Rightarrow> (error + (coord \<times> 'g)) option" where
  "generate_position L w h obs g =
     (case randint L 1 (w - 2) g of
        Inl e \<Rightarrow> Some (Inl e)
      | Inr (x, g1) \<Rightarrow>
          (case randint L 1 (h - 2) g1 of
             Inl e \<Rightarrow> Some (Inl e)
           | Inr (y, g2) \<Rightarrow>
               if (x, y) \<notin> set obs then Some (Inr ((x, y), g2))
               else generate_position L w h obs g2))"

text \<open>
  The constructor of \<^verbatim>\<open>Food\<close>: \<^verbatim>\<open>_generate_position\<close> reads the width, the
  height and the obstacles that the constructor has just stored, and its result is stored
  as the position. \<^verbatim>\<open>obstacles or []\<close> is the list itself (an empty list is replaced
  by an empty list).
\<close>

definition Food_init ::
  "'g pylib \<Rightarrow> int \<Rightarrow> int \<Rightarrow> coord list \<Rightarrow> 'g \<Rightarrow> (error + (Food \<times> 'g)) option" where
  "Food_init L w h obs g =
     (case generate_position L w h obs g of
        None \<Rightarrow> None
      | Some (Inl e) \<Rightarrow> Some (Inl e)
      | Some (Inr (pos, g1)) \<Rightarrow>
          Some (Inr (\<lparr>food_width = w, food_height = h, obstacles = obs, position = pos\<rparr>, g1)))"

partial_function (option) regenerate ::
  "'g pylib \<Rightarrow> Food \<Rightarrow> coord list \<Rightarrow> 'g \<Rightarrow> (error + (Food \<times> 'g)) option" where
  "regenerate L f snake_body g =
     (case randint L 1 (food_width f - 2) g of
        Inl e \<Rightarrow> Some (Inl e)
      | Inr (x, g1) \<Rightarrow>
          (case randint L 1 (food_height f - 2) g1 of
             Inl e \<Rightarrow> Some (Inl e)
           | Inr (y, g2) \<Rightarrow>
               if (x, y) \<notin> set snake_body \<and> (x, y) \<notin> set (obstacles f)
               then Some (Inr (f\<lparr>position := (x, y)\<rparr>, g2))
               else regenerate L f snake_body g2))"

declare generate_position.simps [code]
declare regenerate.simps [code]

definition get_position :: "Food \<Rightarrow> coord" where
  "get_position f = position f"

section \<open>GameState\<close>

definition GameState_init ::
  "'g pylib \<Rightarrow> int \<Rightarrow> int \<Rightarrow> 'g \<Rightarrow> (error + (GameState \<times> 'g)) option" where
  "GameState_init L w h g =
     (let start_x = w div 2; start_y = h div 2; sn = Snake_init start_x start_y
      in case get_level_obstacles L 1 w h g of
           Inl e \<Rightarrow> Some (Inl e)
         | Inr (obs, g1) \<Rightarrow>
             (case Food_init L w h obs g1 of
                None \<Rightarrow> None
              | Some (Inl e) \<Rightarrow> Some (Inl e)
              | Some (Inr (f, g2)) \<Rightarrow>
                  (case regenerate L f (get_body sn) g2 of
                     None \<Rightarrow> None
                   | Some (Inl e) \<Rightarrow> Some (Inl e)
                   | Some (Inr (f', g3)) \<Rightarrow>
                       Some (Inr (\<lparr>width = w, height = h, score = 0, level = 1,
                                    foods_eaten = 0, foods_per_level = 5,
                                    game_over = False, game_won = False, max_level = 10,
                                    snake = sn, food = f'\<rparr>, g3)))))"

definition advance_level ::
  "'g pylib \<Rightarrow> GameState \<Rightarrow> 'g \<Rightarrow> (error + (GameState \<times> 'g)) option" where
  "advance_level L s g =
     (if level s \<ge> max_level s then Some (Inr (s\<lparr>game_won := True\<rparr>, g))
      else
        let s1 = s\<lparr>level := level s + 1, foods_eaten := 0, score := score s + 50\<rparr>
        in case get_level_obstacles L (level s1) (width s1) (height s1) g of
             Inl e \<Rightarrow> Some (Inl e)
           | Inr (obs, g1) \<Rightarrow>
               (case regenerate L ((food s1)\<lparr>obstacles := obs\<rparr>) (get_body (snake s1)) g1 of
                  None \<Rightarrow> None
                | Some (Inl e) \<Rightarrow> Some (Inl e)
                | Some (Inr (f, g2)) \<Rightarrow> Some (Inr (s1\<lparr>food := f\<rparr>, g2))))"

text \<open>
  One tick. The result is the returned boolean, the state and the generator after the
  call. The checks are in the order of the source: terminal flags, move, wall, obstacle,
  self collision, food.
\<close>

definition update ::
  "'g pylib \<Rightarrow> GameState \<Rightarrow> 'g \<Rightarrow> (error + (bool \<times> GameState \<times> 'g)) option" where
  "update L s g =
     (if game_over s \<or> game_won s then Some (Inr (False, s, g))
      else
        case move (snake s) of
          Inl e \<Rightarrow> Some (Inl e)
        | Inr (new_head, sn) \<Rightarrow>
            let s1 = s\<lparr>snake := sn\<rparr>
            in if fst new_head \<le> 0 \<or> fst new_head \<ge> width s1 - 1 \<or>
                  snd new_head \<le> 0 \<or> snd new_head \<ge> height s1 - 1
               then Some (Inr (False, s1\<lparr>game_over := True\<rparr>, g))
               else
                 case get_level_obstacles L (level s1) (width s1) (height s1) g of
                   Inl e \<Rightarrow> Some (Inl e)
                 | Inr (obs, g1) \<Rightarrow>
                     if new_head \<in> set obs
                     then Some (Inr (False, s1\<lparr>game_over := True\<rparr>, g1))
                     else
                       case check_self_collision (snake s1) of
                         Inl e \<Rightarrow> Some (Inl e)
                       | Inr hit \<Rightarrow>
                           if hit then Some (Inr (False, s1\<lparr>game_over := True\<rparr>, g1))
                           else if new_head = get_position (food s1) then
                             let s2 = s1\<lparr>snake := grow (snake s1),
                                         score := score s1 + 10,
                                         foods_eaten := foods_eaten s1 + 1\<rparr>
                             in case regenerate L (food s2) (get_body (snake s2)) g1 of
                                  None \<Rightarrow> None
                                | Some (Inl e) \<Rightarrow> Some (Inl e)
                                | Some (Inr (f, g2)) \<Rightarrow>
                                    let s3 = s2\<lparr>food := f\<rparr>
                                    in if foods_eaten s3 \<ge> foods_per_level s3
                                       then (case advance_level L s3 g2 of
                                               None \<Rightarrow> None
                                             | Some (Inl e) \<Rightarrow> Some (Inl e)
                                             | Some (Inr (s4, g3)) \<Rightarrow> Some (Inr (True, s4, g3)))
                                       else Some (Inr (True, s3, g2))
                           else Some (Inr (True, s1, g1)))"

definition change_snake_direction :: "GameState \<Rightarrow> Direction \<Rightarrow> GameState" where
  "change_snake_direction s d = s\<lparr>snake := change_direction (snake s) d\<rparr>"

definition get_obstacles :: "'g pylib \<Rightarrow> GameState \<Rightarrow> 'g \<Rightarrow> error + (coord list \<times> 'g)" where
  "get_obstacles L s g = get_level_obstacles L (level s) (width s) (height s) g"

definition is_game_over :: "GameState \<Rightarrow> bool" where
  "is_game_over s = game_over s"

definition is_game_won :: "GameState \<Rightarrow> bool" where
  "is_game_won s = game_won s"

text \<open>
  \<^verbatim>\<open>get_progress\<close> returns a Python object. Of the objects of Python, the model has
  the two a reader of the code and of the specification could expect here: a string, and a
  tuple of integers. \<open>str_int\<close> is \<^verbatim>\<open>str\<close> on an integer, which is how an f-string
  formats it: decimal digits, with a minus sign in front of a negative number.
\<close>

datatype py_object = PyStr string | PyTuple "int list"

definition digit_char :: "nat \<Rightarrow> char" where
  "digit_char d = char_of (48 + d)"

fun str_nat :: "nat \<Rightarrow> string" where
  "str_nat n = (if n < 10 then [digit_char n] else str_nat (n div 10) @ [digit_char (n mod 10)])"

declare str_nat.simps [simp del]

definition str_int :: "int \<Rightarrow> string" where
  "str_int i = (if i < 0 then CHR ''-'' # str_nat (nat (- i)) else str_nat (nat i))"

definition get_progress :: "GameState \<Rightarrow> py_object" where
  "get_progress s =
     PyStr (''Level '' @ str_int (level s) @ '' - Food: '' @ str_int (foods_eaten s) @
            ''/'' @ str_int (foods_per_level s))"

section \<open>Definitions used to state the properties\<close>

text \<open>
  The opposite pairs of directions, as the specification describes them: Up/Down and
  Left/Right.
\<close>

fun opposite_of :: "Direction \<Rightarrow> Direction \<Rightarrow> bool" where
  "opposite_of UP DOWN = True"
| "opposite_of DOWN UP = True"
| "opposite_of LEFT RIGHT = True"
| "opposite_of RIGHT LEFT = True"
| "opposite_of a b = False"

text \<open>
  Some cell of the interior from which \<^verbatim>\<open>regenerate\<close> samples is neither on the
  snake nor an obstacle.
\<close>

definition interior_free :: "Food \<Rightarrow> coord list \<Rightarrow> bool" where
  "interior_free f snake_body =
     (\<exists>x\<in>set [1..food_width f - 2]. \<exists>y\<in>set [1..food_height f - 2].
        (x, y) \<notin> set snake_body \<and> (x, y) \<notin> set (obstacles f))"

text \<open>
  The cell the next \<^verbatim>\<open>move()\<close> puts the head on is the position of the food. A
  call of \<^verbatim>\<open>update()\<close> that returns true eats food exactly in such a state
  (lemma \<open>update_True\<close> below: it is then, and only then, that growth is pending
  afterwards).
\<close>

definition food_ahead :: "GameState \<Rightarrow> bool" where
  "food_ahead s =
     (case move (snake s) of
        Inl e \<Rightarrow> False
      | Inr (new_head, sn) \<Rightarrow> new_head = get_position (food s))"

text \<open>
  A run of a game without collision. \<open>play L start n w\<close>: from the state and generator
  \<open>start\<close>, calls of \<^verbatim>\<open>change_snake_direction\<close> and calls of
  \<^verbatim>\<open>update()\<close> that return true lead to \<open>w\<close>, and exactly \<open>n\<close> of the
  \<^verbatim>\<open>update()\<close> calls ate food. The module-level generator is shared with the rest
  of the program, so its state may change between the calls (\<open>play_other\<close>).
\<close>

inductive play :: "'g pylib \<Rightarrow> GameState \<times> 'g \<Rightarrow> nat \<Rightarrow> GameState \<times> 'g \<Rightarrow> bool"
  for L :: "'g pylib" and start :: "GameState \<times> 'g" where
  play_start: "play L start 0 start"
| play_turn: "play L start n (s, g) \<Longrightarrow> play L start n (change_snake_direction s d, g)"
| play_other: "play L start n (s, g) \<Longrightarrow> play L start n (s, g')"
| play_tick: "play L start n (s, g) \<Longrightarrow> \<not> food_ahead s \<Longrightarrow>
     update L s g = Some (Inr (True, s', g')) \<Longrightarrow> play L start n (s', g')"
| play_eat: "play L start n (s, g) \<Longrightarrow> food_ahead s \<Longrightarrow>
     update L s g = Some (Inr (True, s', g')) \<Longrightarrow> play L start (Suc n) (s', g')"

text \<open>
  The states of a game. \<open>reachable L start w\<close>: calls of
  \<^verbatim>\<open>change_snake_direction\<close> and of \<^verbatim>\<open>update()\<close> (whatever it returns)
  lead from \<open>start\<close> to \<open>w\<close>; the state of the shared generator may change between
  the calls.
\<close>

inductive reachable :: "'g pylib \<Rightarrow> GameState \<times> 'g \<Rightarrow> GameState \<times> 'g \<Rightarrow> bool"
  for L :: "'g pylib" and start :: "GameState \<times> 'g" where
  reach_start: "reachable L start start"
| reach_turn: "reachable L start (s, g) \<Longrightarrow> reachable L start (change_snake_direction s d, g)"
| reach_other: "reachable L start (s, g) \<Longrightarrow> reachable L start (s, g')"
| reach_update: "reachable L start (s, g) \<Longrightarrow> update L s g = Some (Inr (r, s', g')) \<Longrightarrow>
     reachable L start (s', g')"

text \<open>What every state of a game built by the constructor satisfies.\<close>

definition game_invariant :: "GameState \<Rightarrow> bool" where
  "game_invariant s =
     (foods_per_level s = 5 \<and> max_level s = 10 \<and> 1 \<le> level s \<and> level s \<le> 10 \<and>
      0 \<le> foods_eaten s \<and> 0 \<le> score s \<and>
      (if game_won s then \<not> game_over s \<and> level s = 10 \<and> foods_eaten s = 5
       else foods_eaten s < 5))"

text \<open>
  The centered cross of the specification, as a set: the vertical line of the cells at
  most 2 from the middle row in the middle column and the horizontal line of the cells at
  most 3 from the middle column in the middle row, both clipped to the interior.
\<close>

definition centered_cross :: "int \<Rightarrow> int \<Rightarrow> coord set" where
  "centered_cross w h =
     set (map (\<lambda>y. (w div 2, y)) (filter (\<lambda>y. 0 < y \<and> y < h - 1) [h div 2 - 2..h div 2 + 2])) \<union>
     set (map (\<lambda>x. (x, h div 2)) (filter (\<lambda>x. 0 < x \<and> x < w - 1) [w div 2 - 3..w div 2 + 3]))"

text \<open>
  Reading the three numbers back from the text of \<^verbatim>\<open>get_progress\<close>: the number
  after the 6 characters of \<^verbatim>\<open>Level \<close>, the number after the 9 characters that
  follow it, and the number after the slash.
\<close>

definition is_digit :: "char \<Rightarrow> bool" where
  "is_digit c = (48 \<le> (of_char c :: nat) \<and> (of_char c :: nat) \<le> 57)"

definition num_char :: "char \<Rightarrow> bool" where
  "num_char c = (is_digit c \<or> c = CHR ''-'')"

definition nat_of_digits :: "string \<Rightarrow> nat" where
  "nat_of_digits ds = foldl (\<lambda>a c. 10 * a + (of_char c - 48)) 0 ds"

definition int_of_str :: "string \<Rightarrow> int" where
  "int_of_str cs =
     (case cs of
        [] \<Rightarrow> 0
      | c # ds \<Rightarrow> if c = CHR ''-'' then - int (nat_of_digits ds) else int (nat_of_digits cs))"

definition progress_fields :: "py_object \<Rightarrow> (int \<times> int \<times> int) option" where
  "progress_fields v =
     (case v of
        PyTuple xs \<Rightarrow> None
      | PyStr cs \<Rightarrow>
          let a = drop 6 cs;
              b = drop 9 (dropWhile num_char a);
              c = drop 1 (dropWhile num_char b)
          in Some (int_of_str (takeWhile num_char a), int_of_str (takeWhile num_char b),
                   int_of_str c))"

subsection \<open>Concrete inputs\<close>

text \<open>
  A concrete library for running the model: the generator state is the list of the raw
  draws still to come (an exhausted list draws 0), \<open>seed a\<close> is the one-element list of
  \<open>\<bar>a\<bar>\<close>, and the trigonometric values are those of the table.
\<close>

definition trig_table :: "((int \<times> int) \<times> (int \<times> int)) list" where
  "trig_table =
     [((1, 0), (1, 0)), ((1, 30), (0, 0)), ((1, 60), (0, 0)), ((1, 90), (0, 1)),
      ((1, 120), (0, 0)), ((1, 150), (0, 0)), ((1, 180), (-1, 0)), ((1, 210), (0, 0)),
      ((1, 240), (0, 0)), ((1, 270), (0, -1)), ((1, 300), (0, 0)), ((1, 330), (0, 0)),
      ((2, 0), (2, 0)), ((2, 30), (1, 0)), ((2, 60), (1, 1)), ((2, 90), (0, 2)),
      ((2, 120), (0, 1)), ((2, 150), (-1, 0)), ((2, 180), (-2, 0)), ((2, 210), (-1, -1)),
      ((2, 240), (-1, -1)), ((2, 270), (0, -2)), ((2, 300), (1, -1)), ((2, 330), (1, -1)),
      ((3, 0), (3, 0)), ((3, 30), (2, 1)), ((3, 60), (1, 2)), ((3, 90), (0, 3)),
      ((3, 120), (-1, 2)), ((3, 150), (-2, 1)), ((3, 180), (-3, 0)), ((3, 210), (-2, -1)),
      ((3, 240), (-1, -2)), ((3, 270), (0, -3)), ((3, 300), (1, -2)), ((3, 330), (2, -1))]"

definition script_lib :: "nat list pylib" where
  "script_lib =
     \<lparr>seed = (\<lambda>a. [nat \<bar>a\<bar>]),
      draw = (\<lambda>g. case g of [] \<Rightarrow> (0, []) | r # rs \<Rightarrow> (r, rs)),
      int_cos = (\<lambda>r angle. case map_of trig_table (r, angle) of None \<Rightarrow> 0 | Some (c, s) \<Rightarrow> c),
      int_sin = (\<lambda>r angle. case map_of trig_table (r, angle) of None \<Rightarrow> 0 | Some (c, s) \<Rightarrow> s)\<rparr>"

text \<open>A 5 by 5 board: the interior is the 3 by 3 square from (1, 1) to (3, 3).\<close>

definition food5 :: Food where
  "food5 = \<lparr>food_width = 5, food_height = 5, obstacles = [], position = (1, 1)\<rparr>"

definition snake9 :: "coord list" where
  "snake9 = [(1, 1), (2, 1), (3, 1), (3, 2), (2, 2), (1, 2), (1, 3), (2, 3), (3, 3)]"

definition game5_start :: GameState where
  "game5_start =
     \<lparr>width = 5, height = 5, score = 0, level = 1, foods_eaten = 0, foods_per_level = 5,
      game_over = False, game_won = False, max_level = 10,
      snake = \<lparr>body = [(2, 2)], direction = RIGHT, grow_pending = False\<rparr>,
      food = food5\<rparr>"

definition game5_tick1 :: GameState where
  "game5_tick1 =
     game5_start\<lparr>snake := \<lparr>body = [(3, 2)], direction = RIGHT, grow_pending = False\<rparr>\<rparr>"

definition game5_dead :: GameState where
  "game5_dead =
     game5_start\<lparr>snake := \<lparr>body = [(4, 2)], direction = RIGHT, grow_pending = False\<rparr>,
                  game_over := True\<rparr>"

text \<open>
  A game on a 20 by 15 board in which the food is always put on the cell in front of the
  head: the script of the draws, and the states after 0 to 5 ticks.
\<close>

definition script20 :: "nat list" where
  "script20 = [10, 6, 10, 6, 11, 6, 12, 6, 13, 6, 14, 6, 15, 6, 15, 6]"

definition run20_0 :: GameState where
  "run20_0 =
     \<lparr>width = 20, height = 15, score = 0, level = 1, foods_eaten = 0, foods_per_level = 5,
      game_over = False, game_won = False, max_level = 10,
      snake = \<lparr>body = [(10, 7)],
               direction = RIGHT, grow_pending = False\<rparr>,
      food = \<lparr>food_width = 20, food_height = 15,
              obstacles = [],
              position = (11, 7)\<rparr>\<rparr>"

definition run20_1 :: GameState where
  "run20_1 =
     \<lparr>width = 20, height = 15, score = 10, level = 1, foods_eaten = 1, foods_per_level = 5,
      game_over = False, game_won = False, max_level = 10,
      snake = \<lparr>body = [(11, 7)],
               direction = RIGHT, grow_pending = True\<rparr>,
      food = \<lparr>food_width = 20, food_height = 15,
              obstacles = [],
              position = (12, 7)\<rparr>\<rparr>"

definition run20_2 :: GameState where
  "run20_2 =
     \<lparr>width = 20, height = 15, score = 20, level = 1, foods_eaten = 2, foods_per_level = 5,
      game_over = False, game_won = False, max_level = 10,
      snake = \<lparr>body = [(12, 7), (11, 7)],
               direction = RIGHT, grow_pending = True\<rparr>,
      food = \<lparr>food_width = 20, food_height = 15,
              obstacles = [],
              position = (13, 7)\<rparr>\<rparr>"

definition run20_3 :: GameState where
  "run20_3 =
     \<lparr>width = 20, height = 15, score = 30, level = 1, foods_eaten = 3, foods_per_level = 5,
      game_over = False, game_won = False, max_level = 10,
      snake = \<lparr>body = [(13, 7), (12, 7), (11, 7)],
               direction = RIGHT, grow_pending = True\<rparr>,
      food = \<lparr>food_width = 20, food_height = 15,
              obstacles = [],
              position = (14, 7)\<rparr>\<rparr>"

definition run20_4 :: GameState where
  "run20_4 =
     \<lparr>width = 20, height = 15, score = 40, level = 1, foods_eaten = 4, foods_per_level = 5,
      game_over = False, game_won = False, max_level = 10,
      snake = \<lparr>body = [(14, 7), (13, 7), (12, 7), (11, 7)],
               direction = RIGHT, grow_pending = True\<rparr>,
      food = \<lparr>food_width = 20, food_height = 15,
              obstacles = [],
              position = (15, 7)\<rparr>\<rparr>"

definition run20_5 :: GameState where
  "run20_5 =
     \<lparr>width = 20, height = 15, score = 100, level = 2, foods_eaten = 0, foods_per_level = 5,
      game_over = False, game_won = False, max_level = 10,
      snake = \<lparr>body = [(15, 7), (14, 7), (13, 7), (12, 7), (11, 7)],
               direction = RIGHT, grow_pending = True\<rparr>,
      food = \<lparr>food_width = 20, food_height = 15,
              obstacles = [(10, 5), (10, 6), (10, 7), (10, 8), (10, 9), (7, 7), (8, 7), (9, 7), (11, 7), (12, 7), (13, 7)],
              position = (16, 7)\<rparr>\<rparr>"

text \<open>
  A whole game on a board of 102 by 10. The snake runs to the right along row 5 for 39
  ticks, goes up to row 4 and runs to the right again; the draws put each food on the cell
  in front of the head, so every tick eats. \<open>long_script\<close> is the generator at the
  construction; \<open>long_seed42\<close> and \<open>long_seed10\<close> are the generators after
  \<^verbatim>\<open>random.seed(42)\<close> and \<^verbatim>\<open>random.seed(10)\<close>, which the levels 7 and 10
  call on every tick: their first draws put the scattered obstacles on (4, 4) and on
  (3, 3), the following ones are the foods.
\<close>

definition long_script :: "nat list" where
  "long_script = [51, 4, 51, 4, 52, 4, 53, 4, 54, 4, 55, 4, 56, 4, 56, 4, 57, 4, 58, 4, 59, 4, 60, 4,
     61, 4, 61, 4, 62, 4, 63, 4, 64, 4, 65, 4, 66, 4, 66, 4, 67, 4, 68, 4, 69, 4, 70, 4, 71,
     4, 71, 4, 72, 4, 73, 4, 74, 4, 75, 4, 76, 4, 76, 4, 77, 4, 78, 4, 79, 4, 80, 4, 81, 4]"

definition long_seed42 :: "nat list" where
  "long_seed42 = replicate 40 0 @ [81, 4, 82, 4, 83, 4, 84, 4, 85, 4, 86, 4, 86, 4, 87, 4, 88, 4, 89, 4, 89, 3, 90, 3,
     90, 3, 91, 3, 92, 3, 93, 3, 94, 3, 95, 3]"

definition long_seed10 :: "nat list" where
  "long_seed10 = replicate 80 0 @ [95, 3, 96, 3, 97, 3, 98, 3, 99, 3]"

definition long_lib :: "nat list pylib" where
  "long_lib = script_lib\<lparr>seed := (\<lambda>a. if a = 42 then long_seed42 else if a = 10 then long_seed10 else [])\<rparr>"

definition long_turns :: "Direction list" where
  "long_turns = replicate 39 RIGHT @ [UP] @ replicate 9 RIGHT"

text \<open>One turn and one tick for each direction of the list, as long as the ticks return true.\<close>

fun run_ticks :: "'g pylib \<Rightarrow> Direction list \<Rightarrow> GameState \<times> 'g \<Rightarrow> (GameState \<times> 'g) option" where
  "run_ticks L [] w = Some w"
| "run_ticks L (d # ds) (s, g) =
     (case update L (change_snake_direction s d) g of
        Some (Inr (True, s', g')) \<Rightarrow> run_ticks L ds (s', g')
      | _ \<Rightarrow> None)"

text \<open>
  The states of that game: after the constructor, after 49 ticks (level 10, four foods
  eaten, the fifth in front of the head) and after the 50th tick.
\<close>

definition long_start :: GameState where
  "long_start =
     \<lparr>width = 102, height = 10, score = 0, level = 1, foods_eaten = 0, foods_per_level = 5,
      game_over = False, game_won = False, max_level = 10,
      snake = \<lparr>body = [(51, 5)], direction = RIGHT, grow_pending = False\<rparr>,
      food = \<lparr>food_width = 102, food_height = 10, obstacles = [], position = (52, 5)\<rparr>\<rparr>"

definition long_pre :: GameState where
  "long_pre =
     \<lparr>width = 102, height = 10, score = 940, level = 10, foods_eaten = 4, foods_per_level = 5,
      game_over = False, game_won = False, max_level = 10,
      snake = \<lparr>body = [(99, 4), (98, 4), (97, 4), (96, 4), (95, 4), (94, 4), (93, 4), (92,
                      4), (91, 4), (90, 4), (90, 5), (89, 5), (88, 5), (87, 5), (86, 5),
                      (85, 5), (84, 5), (83, 5), (82, 5), (81, 5), (80, 5), (79, 5), (78,
                      5), (77, 5), (76, 5), (75, 5), (74, 5), (73, 5), (72, 5), (71, 5),
                      (70, 5), (69, 5), (68, 5), (67, 5), (66, 5), (65, 5), (64, 5), (63,
                      5), (62, 5), (61, 5), (60, 5), (59, 5), (58, 5), (57, 5), (56, 5),
                      (55, 5), (54, 5), (53, 5), (52, 5)],
               direction = RIGHT, grow_pending = True\<rparr>,
      food = \<lparr>food_width = 102, food_height = 10,
              obstacles = [(49, 5), (51, 3), (50, 5), (51, 4), (51, 5), (51, 5), (52, 5),
                          (51, 6), (53, 5), (51, 7), (3, 3)],
              position = (100, 4)\<rparr>\<rparr>"

definition long_post :: GameState where
  "long_post =
     \<lparr>width = 102, height = 10, score = 950, level = 10, foods_eaten = 5, foods_per_level = 5,
      game_over = False, game_won = True, max_level = 10,
      snake = \<lparr>body = [(100, 4), (99, 4), (98, 4), (97, 4), (96, 4), (95, 4), (94, 4), (93,
                      4), (92, 4), (91, 4), (90, 4), (90, 5), (89, 5), (88, 5), (87, 5),
                      (86, 5), (85, 5), (84, 5), (83, 5), (82, 5), (81, 5), (80, 5), (79,
                      5), (78, 5), (77, 5), (76, 5), (75, 5), (74, 5), (73, 5), (72, 5),
                      (71, 5), (70, 5), (69, 5), (68, 5), (67, 5), (66, 5), (65, 5), (64,
                      5), (63, 5), (62, 5), (61, 5), (60, 5), (59, 5), (58, 5), (57, 5),
                      (56, 5), (55, 5), (54, 5), (53, 5), (52, 5)],
               direction = RIGHT, grow_pending = True\<rparr>,
      food = \<lparr>food_width = 102, food_height = 10,
              obstacles = [(49, 5), (51, 3), (50, 5), (51, 4), (51, 5), (51, 5), (52, 5),
                          (51, 6), (53, 5), (51, 7), (3, 3)],
              position = (1, 1)\<rparr>\<rparr>"

section \<open>Properties\<close>

subsection \<open>The library\<close>

lemma randint_range:
  assumes "randint L a b g = Inr (n, g')"
  shows "a \<le> n \<and> n \<le> b"
proof -
  from assms have le: "a \<le> b" by (auto simp: randint_def split: if_splits)
  obtain r where n: "n = a + int r mod (b - a + 1)"
    using assms le by (auto simp: randint_def split: prod.splits)
  have "0 < b - a + 1" using le by simp
  from pos_mod_sign[OF this, of "int r"] pos_mod_bound[OF this, of "int r"] n
  show ?thesis by linarith
qed

lemma randint_returns:
  "a \<le> b \<Longrightarrow> \<exists>n g'. randint L a b g = Inr (n, g')"
  by (auto simp: randint_def split: prod.splits)

lemma randint_script [simp]:
  "randint script_lib a b g =
     (if b < a then Inl ValueError
      else Inr (a + int (case g of [] \<Rightarrow> 0 | r # rs \<Rightarrow> r) mod (b - a + 1),
                case g of [] \<Rightarrow> [] | r # rs \<Rightarrow> rs))"
  by (simp add: randint_def script_lib_def split: list.splits)

subsection \<open>Snake\<close>

text \<open>
  The snake of the constructor has a body, and \<^verbatim>\<open>move()\<close>,
  \<^verbatim>\<open>change_direction\<close> and \<^verbatim>\<open>grow()\<close> keep it: a snake without a body,
  on which \<^verbatim>\<open>move()\<close> raises, is never built.
\<close>

lemma Snake_init_body: "body (Snake_init start_x start_y) \<noteq> []"
  by (simp add: Snake_init_def)

lemma move_keeps_body:
  "move s = Inr (new_head, s') \<Longrightarrow> body s' \<noteq> []"
  by (cases "body s"; cases "direction_value (direction s)")
     (auto simp: move_def Let_def split: if_splits)

lemma move_raises_iff: "(\<exists>e. move s = Inl e) \<longleftrightarrow> body s = []"
  by (cases "body s"; cases "direction_value (direction s)")
     (auto simp: move_def Let_def split: if_splits)

lemma change_direction_body [simp]: "body (change_direction s d) = body s"
  by (simp add: change_direction_def)

lemma grow_body [simp]: "body (grow s) = body s"
  by (simp add: grow_def)

text \<open>
  C6. On a snake with a body (every snake built by the constructor and moved has one),
  \<^verbatim>\<open>move()\<close> returns the old head plus the unit vector of the current direction; that
  coordinate is the new first element of the body; the rest is the old body without its
  last element when no growth was pending (same length), and the whole old body when
  growth was pending (length plus one), in which case the flag is cleared. The direction
  does not change.
\<close>

theorem move_spec:
  assumes "body s = h # t"
    and "new_head = (fst h + fst (direction_value (direction s)),
                     snd h + snd (direction_value (direction s)))"
  shows "move s = Inr (new_head,
           s\<lparr>body := new_head # (if grow_pending s then h # t else butlast (h # t)),
             grow_pending := False\<rparr>) \<and>
         length (new_head # (if grow_pending s then h # t else butlast (h # t))) =
           (if grow_pending s then length (body s) + 1 else length (body s))"
  using assms by (cases h; cases "direction_value (direction s)") (simp add: move_def Let_def)

text \<open>A snake of two cells with growth pending moves right and has three cells.\<close>

theorem move_spec_witness:
  "body \<lparr>body = [(10, 7), (9, 7)], direction = RIGHT, grow_pending = True\<rparr> = (10, 7) # [(9, 7)] \<and>
   move \<lparr>body = [(10, 7), (9, 7)], direction = RIGHT, grow_pending = True\<rparr> =
     Inr ((11, 7), \<lparr>body = [(11, 7), (10, 7), (9, 7)], direction = RIGHT, grow_pending = False\<rparr>)"
  using move_spec [of "\<lparr>body = [(10, 7), (9, 7)], direction = RIGHT, grow_pending = True\<rparr>"
                     "(10, 7)" "[(9, 7)]" "(11, 7)"]
  by simp

subsection \<open>LevelManager\<close>

text \<open>
  C5. For level 7 and for every level from 10 on, the result of
  \<^verbatim>\<open>get_level_obstacles\<close> (the obstacle list, or the exception, and the generator
  state it leaves) is the same whatever the state of the module-level generator was
  before the call: the branch reseeds it first.
\<close>

theorem get_level_obstacles_seeded:
  "lv = 7 \<or> 10 \<le> lv \<Longrightarrow>
   get_level_obstacles L lv w h g = get_level_obstacles L lv w h g'"
  by (auto simp: get_level_obstacles_def)

lemma level7_script:
  "get_level_obstacles script_lib 7 20 15 [] =
     Inr ([(10, 4), (4, 4), (4, 4), (4, 4), (4, 4), (4, 4), (4, 4), (4, 4), (4, 4), (4, 4),
           (4, 4), (4, 4), (4, 4), (4, 4), (4, 4)], [])"
  by code_simp

text \<open>
  Level 7 on the 20 by 15 board, from a generator with draws left and from an exhausted
  one: the same fifteen obstacles.
\<close>

theorem get_level_obstacles_seeded_witness:
  "((7::int) = 7 \<or> 10 \<le> (7::int)) \<and>
   get_level_obstacles script_lib 7 20 15 [3, 4, 5] = get_level_obstacles script_lib 7 20 15 [] \<and>
   get_level_obstacles script_lib 7 20 15 [3, 4, 5] =
     Inr ([(10, 4), (4, 4), (4, 4), (4, 4), (4, 4), (4, 4), (4, 4), (4, 4), (4, 4), (4, 4),
           (4, 4), (4, 4), (4, 4), (4, 4), (4, 4)], [])"
  using get_level_obstacles_seeded [of 7 script_lib 20 15 "[3, 4, 5]" "[]"] level7_script
  by simp

text \<open>
  C3. On the 5 by 5 board, level 3 returns both corner blocks unclipped: (4, 3) is on the
  border ring, (7, 5) and (-3, -1) are outside the board.
\<close>

theorem level3_obstacles_leave_board:
  "get_level_obstacles L 3 5 5 g =
     Inr ([(3, 3), (3, 4), (3, 5), (4, 3), (4, 4), (4, 5), (5, 3), (5, 4), (5, 5),
           (6, 3), (6, 4), (6, 5), (7, 3), (7, 4), (7, 5),
           (- 3, - 1), (- 3, 0), (- 3, 1), (- 2, - 1), (- 2, 0), (- 2, 1),
           (- 1, - 1), (- 1, 0), (- 1, 1), (0, - 1), (0, 0), (0, 1),
           (1, - 1), (1, 0), (1, 1)], g)"
  by (simp add: get_level_obstacles_def obstacles_level3_def py_range_def upto.simps)

subsection \<open>Food\<close>

lemma regenerate_result:
  assumes "regenerate L f sb g = Some r"
  shows "\<forall>f' g'. r = Inr (f', g') \<longrightarrow>
     (\<exists>x y. f' = f\<lparr>position := (x, y)\<rparr> \<and> (x, y) \<notin> set sb \<and> (x, y) \<notin> set (obstacles f) \<and>
       1 \<le> x \<and> x \<le> food_width f - 2 \<and> 1 \<le> y \<and> y \<le> food_height f - 2)"
  using assms
proof (induction rule: regenerate.raw_induct[rotated 1, consumes 1])
  case (1 regenerate L f sb g r)
  show ?case
  proof (cases "randint L 1 (food_width f - 2) g")
    case (Inl e)
    with 1(2) show ?thesis by auto
  next
    case (Inr p)
    obtain x g1 where p: "p = (x, g1)" by (cases p)
    note rx = Inr[unfolded p]
    show ?thesis
    proof (cases "randint L 1 (food_height f - 2) g1")
      case (Inl e)
      with 1(2) rx show ?thesis by auto
    next
      case (Inr q)
      obtain y g2 where q: "q = (y, g2)" by (cases q)
      note ry = Inr[unfolded q]
      show ?thesis
      proof (cases "(x, y) \<notin> set sb \<and> (x, y) \<notin> set (obstacles f)")
        case True
        with 1(2) rx ry randint_range[OF rx] randint_range[OF ry] show ?thesis by auto
      next
        case False
        with 1(2) rx ry have "regenerate L f sb g2 = Some r" by auto
        from 1(1)[OF this] show ?thesis .
      qed
    qed
  qed
qed

text \<open>
  C7. Whenever \<^verbatim>\<open>regenerate(snake_body)\<close> returns, the new position is neither in
  \<open>snake_body\<close> nor in the obstacles of the food, and it lies in the interior:
  \<open>1 \<le> x \<le> width - 2\<close> and \<open>1 \<le> y \<le> height - 2\<close>. Nothing else of the food changes.
\<close>

theorem regenerate_position_free:
  assumes "regenerate L f snake_body g = Some (Inr (f', g'))"
  shows "position f' \<notin> set snake_body \<and> position f' \<notin> set (obstacles f') \<and>
         1 \<le> fst (position f') \<and> fst (position f') \<le> food_width f' - 2 \<and>
         1 \<le> snd (position f') \<and> snd (position f') \<le> food_height f' - 2 \<and>
         f' = f\<lparr>position := position f'\<rparr>"
  using regenerate_result[OF assms] by auto

text \<open>
  On the 5 by 5 board with the snake on (2, 2), the first sample (2, 2) is rejected and
  the second, (1, 3), is taken.
\<close>

theorem regenerate_position_free_witness:
  "regenerate script_lib food5 [(2, 2)] [1, 1, 0, 2] =
     Some (Inr (food5\<lparr>position := (1, 3)\<rparr>, [])) \<and>
   (1, 3) \<notin> set [(2, 2) :: coord] \<and> (1, 3) \<notin> set (obstacles food5) \<and>
   position (food5\<lparr>position := (1, 3)\<rparr>) = (1, 3)"
  using regenerate_position_free [of script_lib food5 "[(2, 2)]" "[1, 1, 0, 2]"
          "food5\<lparr>position := (1, 3)\<rparr>" "[]"]
  by (simp add: regenerate.simps food5_def)

lemma regenerate_exhausted_aux:
  assumes "regenerate L f sb g = Some r"
  shows "\<not> interior_free f sb \<longrightarrow> 1 \<le> food_width f - 2 \<longrightarrow> 1 \<le> food_height f - 2 \<longrightarrow> False"
  using assms
proof (induction rule: regenerate.raw_induct[rotated 1, consumes 1])
  case (1 regenerate L f sb g r)
  show ?case
  proof (intro impI)
    assume full: "\<not> interior_free f sb"
      and w: "1 \<le> food_width f - 2" and h: "1 \<le> food_height f - 2"
    obtain x g1 where rx: "randint L 1 (food_width f - 2) g = Inr (x, g1)"
      using randint_returns[OF w, of L g] by blast
    obtain y g2 where ry: "randint L 1 (food_height f - 2) g1 = Inr (y, g2)"
      using randint_returns[OF h, of L g1] by blast
    from randint_range[OF rx] randint_range[OF ry] full
    have "\<not> ((x, y) \<notin> set sb \<and> (x, y) \<notin> set (obstacles f))"
      by (auto simp: interior_free_def)
    with 1(2) rx ry have "regenerate L f sb g2 = Some r" by auto
    from 1(1)[OF this] full w h show False by blast
  qed
qed

text \<open>
  With no free cell in a non-empty interior, \<^verbatim>\<open>regenerate\<close> neither returns nor
  raises, whatever the generator draws.
\<close>

lemma regenerate_exhausted:
  "\<not> interior_free f sb \<Longrightarrow> 3 \<le> food_width f \<Longrightarrow> 3 \<le> food_height f \<Longrightarrow>
   regenerate L f sb g = None"
  using regenerate_exhausted_aux[of L f sb g] by (cases "regenerate L f sb g") auto

text \<open>
  C4. On the 5 by 5 board with a snake of nine cells that covers the whole interior,
  \<^verbatim>\<open>regenerate\<close> runs forever for every generator: it does not fail with an
  explicit condition.
\<close>

theorem regenerate_full_board_diverges:
  "regenerate L food5 snake9 g = None"
  by (rule regenerate_exhausted) (simp_all add: interior_free_def food5_def snake9_def upto.simps)

subsection \<open>GameState\<close>

lemma init5: "GameState_init script_lib 5 5 [] = Some (Inr (game5_start, []))"
  by (simp add: GameState_init_def get_level_obstacles_def Food_init_def generate_position.simps
        regenerate.simps Snake_init_def get_body_def game5_start_def food5_def)

lemma tick5_1: "update script_lib game5_start [] = Some (Inr (True, game5_tick1, []))"
  by (simp add: update_def Let_def move_def get_level_obstacles_def check_self_collision_def
        get_position_def game5_start_def game5_tick1_def food5_def)

lemma tick5_2: "update script_lib game5_tick1 [] = Some (Inr (False, game5_dead, []))"
  by (simp add: update_def Let_def move_def get_level_obstacles_def check_self_collision_def
        get_position_def game5_start_def game5_tick1_def game5_dead_def food5_def)

text \<open>
  C2 as stated fails. The game built on a 5 by 5 board runs into the wall on its second
  tick; in that state, with \<open>game_over\<close> set, \<^verbatim>\<open>change_snake_direction(UP)\<close> turns
  the snake from RIGHT to UP.
\<close>

theorem change_direction_when_over_counterexample:
  "GameState_init script_lib 5 5 [] = Some (Inr (game5_start, [])) \<and>
   update script_lib game5_start [] = Some (Inr (True, game5_tick1, [])) \<and>
   update script_lib game5_tick1 [] = Some (Inr (False, game5_dead, [])) \<and>
   game_over game5_dead \<and>
   direction (snake (change_snake_direction game5_dead UP)) \<noteq> direction (snake game5_dead)"
  using init5 tick5_1 tick5_2
  by (simp add: change_snake_direction_def change_direction_def game5_dead_def game5_start_def)

text \<open>
  C2, amended. In every state, terminal or not, \<^verbatim>\<open>change_snake_direction(d)\<close> sets
  the direction of the snake to \<open>d\<close> unless \<open>d\<close> is the opposite of the current
  direction, in which case the direction stays; no other field of the state changes.
\<close>

theorem change_snake_direction_delegates:
  "change_snake_direction s d =
     s\<lparr>snake := (snake s)\<lparr>direction :=
          (if opposite_of (direction (snake s)) d then direction (snake s) else d)\<rparr>\<rparr>"
  by (cases "direction (snake s)"; cases d)
     (simp_all add: change_snake_direction_def change_direction_def)

lemma update_terminal:
  "game_over s \<or> game_won s \<Longrightarrow> update L s g = Some (Inr (False, s, g))"
  by (simp add: update_def)

lemma advance_level_fields:
  assumes "advance_level L s g = Some (Inr (s', g'))"
  shows "game_over s' = game_over s \<and> width s' = width s \<and> height s' = height s \<and>
         foods_per_level s' = foods_per_level s \<and> max_level s' = max_level s \<and>
         snake s' = snake s \<and>
         (if max_level s \<le> level s
          then s' = s\<lparr>game_won := True\<rparr> \<and> g' = g
          else game_won s' = game_won s \<and> level s' = level s + 1 \<and> foods_eaten s' = 0 \<and>
               score s' = score s + 50)"
  using assms
  by (auto simp: advance_level_def Let_def split: if_splits sum.splits prod.splits option.splits)

lemma update_result_flag:
  assumes "update L s g = Some (Inr (r, s', g'))"
  shows "r = False \<longleftrightarrow> (game_over s \<or> game_won s \<or> game_over s')"
  using assms
  by (auto simp: update_def Let_def split: if_splits sum.splits prod.splits option.splits
           dest: advance_level_fields)

lemma update_True:
  assumes "update L s g = Some (Inr (True, s', g'))"
  shows "\<not> game_over s \<and> \<not> game_won s \<and> \<not> game_over s' \<and>
         width s' = width s \<and> height s' = height s \<and>
         foods_per_level s' = foods_per_level s \<and> max_level s' = max_level s \<and>
         (if \<not> food_ahead s
          then level s' = level s \<and> foods_eaten s' = foods_eaten s \<and> score s' = score s \<and>
               \<not> game_won s' \<and> \<not> grow_pending (snake s')
          else grow_pending (snake s') \<and>
            (if foods_eaten s + 1 < foods_per_level s
             then level s' = level s \<and> foods_eaten s' = foods_eaten s + 1 \<and>
                  score s' = score s + 10 \<and> \<not> game_won s'
             else if max_level s \<le> level s
             then level s' = level s \<and> foods_eaten s' = foods_eaten s + 1 \<and>
                  score s' = score s + 10 \<and> game_won s'
             else level s' = level s + 1 \<and> foods_eaten s' = 0 \<and>
                  score s' = score s + 60 \<and> \<not> game_won s'))"
proof -
  from assms have nt: "\<not> game_over s" "\<not> game_won s"
    by (auto simp: update_def)
  from assms nt obtain nh sn where mv: "move (snake s) = Inr (nh, sn)"
    by (cases "move (snake s)") (auto simp: update_def)
  have gp: "\<not> grow_pending sn"
    using mv by (auto simp: move_def Let_def split: list.splits prod.splits if_splits)
  define s1 where "s1 = s\<lparr>snake := sn\<rparr>"
  from assms nt mv obtain obs g1
    where go: "get_level_obstacles L (level s) (width s) (height s) g = Inr (obs, g1)"
    by (cases "get_level_obstacles L (level s) (width s) (height s) g")
       (auto simp: update_def Let_def split: if_splits)
  from assms nt mv go have sc: "check_self_collision sn = Inr False"
    by (cases "check_self_collision sn")
       (auto simp: update_def Let_def split: if_splits)
  show ?thesis
  proof (cases "nh = position (food s)")
    case False
    with assms nt mv go sc have "s' = s1"
      by (auto simp: update_def Let_def s1_def get_position_def split: if_splits)
    with False mv gp nt show ?thesis
      by (simp add: s1_def food_ahead_def get_position_def)
  next
    case True
    define s2 where "s2 = s1\<lparr>snake := grow (snake s1), score := score s1 + 10,
                              foods_eaten := foods_eaten s1 + 1\<rparr>"
    from assms nt mv go sc True obtain f g2
      where rg: "regenerate L (food s2) (get_body (snake s2)) g1 = Some (Inr (f, g2))"
      by (auto simp: update_def Let_def s1_def s2_def get_position_def
               split: if_splits option.splits sum.splits prod.splits)
    define s3 where "s3 = s2\<lparr>food := f\<rparr>"
    have fa: "food_ahead s" using True mv by (simp add: food_ahead_def get_position_def)
    show ?thesis
    proof (cases "foods_per_level s \<le> foods_eaten s + 1")
      case False
      with assms nt mv go sc True rg have "s' = s3"
        by (auto simp: update_def Let_def s1_def s2_def s3_def get_position_def split: if_splits)
      with False fa nt show ?thesis
        by (simp add: s1_def s2_def s3_def grow_def)
    next
      case ge: True
      with assms nt mv go sc True rg have "advance_level L s3 g2 = Some (Inr (s', g'))"
        by (auto simp: update_def Let_def s1_def s2_def s3_def get_position_def
                 split: if_splits option.splits sum.splits prod.splits)
      from advance_level_fields[OF this] ge fa nt show ?thesis
        by (auto simp: s1_def s2_def s3_def grow_def split: if_splits)
    qed
  qed
qed

lemma init_fields:
  assumes "GameState_init L w h g0 = Some (Inr (s0, g1))"
  shows "width s0 = w \<and> height s0 = h \<and> score s0 = 0 \<and> level s0 = 1 \<and> foods_eaten s0 = 0 \<and>
         foods_per_level s0 = 5 \<and> max_level s0 = 10 \<and> \<not> game_over s0 \<and> \<not> game_won s0"
  using assms
  by (auto simp: GameState_init_def Let_def split: sum.splits prod.splits option.splits)

lemma change_snake_direction_fields [simp]:
  "width (change_snake_direction s d) = width s"
  "height (change_snake_direction s d) = height s"
  "score (change_snake_direction s d) = score s"
  "level (change_snake_direction s d) = level s"
  "foods_eaten (change_snake_direction s d) = foods_eaten s"
  "foods_per_level (change_snake_direction s d) = foods_per_level s"
  "max_level (change_snake_direction s d) = max_level s"
  "game_over (change_snake_direction s d) = game_over s"
  "game_won (change_snake_direction s d) = game_won s"
  by (simp_all add: change_snake_direction_def)

lemma play_invariant:
  assumes "play L (s0, g1) n (s, g)"
    and "width s0 = w \<and> height s0 = h \<and> score s0 = 0 \<and> level s0 = 1 \<and> foods_eaten s0 = 0 \<and>
         foods_per_level s0 = 5 \<and> max_level s0 = 10"
  shows "width s = w \<and> height s = h \<and> foods_per_level s = 5 \<and> max_level s = 10 \<and>
         (n < 5 \<longrightarrow> level s = 1 \<and> foods_eaten s = int n \<and> score s = 10 * int n) \<and>
         (n = 5 \<longrightarrow> level s = 2 \<and> foods_eaten s = 0 \<and> score s = 100)"
  using assms
proof (induction n "(s, g)" arbitrary: s g rule: play.induct)
  case play_start
  then show ?case by simp
next
  case (play_turn n s g d)
  then show ?case by simp
next
  case (play_other n s g)
  then show ?case by simp
next
  case (play_tick n s g s' g')
  from play_tick.hyps(2)[OF play_tick.prems] update_True[OF play_tick.hyps(4)] play_tick.hyps(3)
  show ?case by simp
next
  case (play_eat n s g s' g')
  from play_eat.hyps(2)[OF play_eat.prems] update_True[OF play_eat.hyps(4)] play_eat.hyps(3)
  show ?case by (auto split: if_splits)
qed

lemma fold_cross_set:
  "set (fold (\<lambda>x obs. if P x \<and> (x, c) \<notin> set obs then obs @ [(x, c)] else obs) xs ys) =
   set ys \<union> set (map (\<lambda>x. (x, c)) (filter P xs))"
  by (induction xs arbitrary: ys) auto

lemma obstacles_level2_set: "set (obstacles_level2 w h) = centered_cross w h"
  unfolding obstacles_level2_def centered_cross_def Let_def py_range_def
  by (subst fold_cross_set[where P = "\<lambda>x. 0 < x \<and> x < w - 1", simplified]) auto

text \<open>
  C8. In every run that starts with the constructor and in which exactly five calls of
  \<^verbatim>\<open>update()\<close> ate food, none ending the game: the level is 2,
  \<open>foods_eaten\<close> is 0, the score is 100, and \<^verbatim>\<open>get_obstacles()\<close> returns the
  pattern of level 2, whose cells are those of the centered cross.
\<close>

theorem five_foods_reach_level2:
  assumes "GameState_init L w h g0 = Some (Inr (s0, g1))"
    and "play L (s0, g1) 5 (s, g)"
  shows "level s = 2 \<and> foods_eaten s = 0 \<and> score s = 100 \<and>
         get_obstacles L s g = Inr (obstacles_level2 w h, g) \<and>
         set (obstacles_level2 w h) = centered_cross w h"
  using play_invariant[OF assms(2), of w h] init_fields[OF assms(1)]
  by (simp add: get_obstacles_def get_level_obstacles_def obstacles_level2_set)

lemma init20: "GameState_init script_lib 20 15 script20 = Some (Inr (run20_0, [11, 6, 12, 6, 13, 6, 14, 6, 15, 6, 15, 6]))"
  by (simp add: GameState_init_def get_level_obstacles_def Food_init_def generate_position.simps
        regenerate.simps Snake_init_def get_body_def run20_0_def script20_def)

lemma tick20_1: "update script_lib run20_0 [11, 6, 12, 6, 13, 6, 14, 6, 15, 6, 15, 6] = Some (Inr (True, run20_1, [12, 6, 13, 6, 14, 6, 15, 6, 15, 6]))"
  by (simp add: update_def Let_def move_def get_level_obstacles_def check_self_collision_def
        get_position_def grow_def get_body_def regenerate.simps advance_level_def
        obstacles_level2_def py_range_def run20_0_def run20_1_def)

lemma tick20_2: "update script_lib run20_1 [12, 6, 13, 6, 14, 6, 15, 6, 15, 6] = Some (Inr (True, run20_2, [13, 6, 14, 6, 15, 6, 15, 6]))"
  by (simp add: update_def Let_def move_def get_level_obstacles_def check_self_collision_def
        get_position_def grow_def get_body_def regenerate.simps advance_level_def
        obstacles_level2_def py_range_def run20_1_def run20_2_def)

lemma tick20_3: "update script_lib run20_2 [13, 6, 14, 6, 15, 6, 15, 6] = Some (Inr (True, run20_3, [14, 6, 15, 6, 15, 6]))"
  by (simp add: update_def Let_def move_def get_level_obstacles_def check_self_collision_def
        get_position_def grow_def get_body_def regenerate.simps advance_level_def
        obstacles_level2_def py_range_def run20_2_def run20_3_def)

lemma tick20_4: "update script_lib run20_3 [14, 6, 15, 6, 15, 6] = Some (Inr (True, run20_4, [15, 6, 15, 6]))"
  by (simp add: update_def Let_def move_def get_level_obstacles_def check_self_collision_def
        get_position_def grow_def get_body_def regenerate.simps advance_level_def
        obstacles_level2_def py_range_def run20_3_def run20_4_def)

lemma tick20_5: "update script_lib run20_4 [15, 6, 15, 6] = Some (Inr (True, run20_5, []))"
  by (simp add: update_def Let_def move_def get_level_obstacles_def check_self_collision_def
        get_position_def grow_def get_body_def regenerate.simps advance_level_def
        obstacles_level2_def py_range_def run20_4_def run20_5_def)

lemma food_ahead20: "food_ahead run20_0" "food_ahead run20_1" "food_ahead run20_2" "food_ahead run20_3" "food_ahead run20_4"
  by (simp_all add: food_ahead_def move_def Let_def get_position_def run20_0_def run20_1_def run20_2_def run20_3_def run20_4_def)

lemma play20: "play script_lib (run20_0, [11, 6, 12, 6, 13, 6, 14, 6, 15, 6, 15, 6]) 5 (run20_5, [])"
proof -
  have "play script_lib (run20_0, [11, 6, 12, 6, 13, 6, 14, 6, 15, 6, 15, 6])
          (Suc (Suc (Suc (Suc (Suc 0))))) (run20_5, [])"
    by (rule play_eat[OF play_eat[OF play_eat[OF play_eat[OF play_eat[OF play_start
        food_ahead20(1) tick20_1] food_ahead20(2) tick20_2] food_ahead20(3) tick20_3]
        food_ahead20(4) tick20_4] food_ahead20(5) tick20_5])
  then show ?thesis by (simp add: eval_nat_numeral)
qed

text \<open>The run on the 20 by 15 board: five ticks, each eats.\<close>

theorem five_foods_reach_level2_witness:
  "GameState_init script_lib 20 15 script20 =
     Some (Inr (run20_0, [11, 6, 12, 6, 13, 6, 14, 6, 15, 6, 15, 6])) \<and>
   play script_lib (run20_0, [11, 6, 12, 6, 13, 6, 14, 6, 15, 6, 15, 6]) 5 (run20_5, []) \<and>
   level run20_5 = 2 \<and> foods_eaten run20_5 = 0 \<and> score run20_5 = 100 \<and>
   get_obstacles script_lib run20_5 [] = Inr (obstacles_level2 20 15, [])"
  using five_foods_reach_level2[OF init20 play20] init20 play20 by simp

lemma update_False_fields:
  assumes "update L s g = Some (Inr (False, s', g'))"
  shows "game_won s' = game_won s \<and> level s' = level s \<and> foods_eaten s' = foods_eaten s \<and>
         score s' = score s \<and> foods_per_level s' = foods_per_level s \<and>
         max_level s' = max_level s \<and> width s' = width s \<and> height s' = height s \<and>
         (game_over s' \<longrightarrow> game_over s \<or> \<not> game_won s)"
proof (cases "game_over s \<or> game_won s")
  case True
  with assms show ?thesis by (auto simp: update_def)
next
  case False
  with assms show ?thesis
    by (auto simp: update_def Let_def split: if_splits sum.splits prod.splits option.splits)
qed

lemma run_ticks_reachable:
  "run_ticks L ds w = Some w' \<Longrightarrow> reachable L start w \<Longrightarrow> reachable L start w'"
proof (induction ds arbitrary: w)
  case Nil
  then show ?case by simp
next
  case (Cons d ds)
  obtain s g where w: "w = (s, g)" by (cases w)
  from Cons.prems(1) obtain s' g'
    where u: "update L (change_snake_direction s d) g = Some (Inr (True, s', g'))"
      and r: "run_ticks L ds (s', g') = Some w'"
    unfolding w
    by (auto split: option.splits sum.splits prod.splits bool.splits if_splits)
  from Cons.prems(2) have "reachable L start (change_snake_direction s d, g)"
    unfolding w by (rule reach_turn)
  from reach_update[OF this u] have "reachable L start (s', g')" .
  from Cons.IH[OF r this] show ?case .
qed

lemma game_invariant_update:
  assumes "game_invariant s" and "update L s g = Some (Inr (r, s', g'))"
  shows "game_invariant s'"
proof (cases r)
  case True
  with assms(2) have "update L s g = Some (Inr (True, s', g'))" by simp
  from update_True[OF this] assms(1) show ?thesis
    by (auto simp: game_invariant_def split: if_splits)
next
  case False
  with assms(2) have "update L s g = Some (Inr (False, s', g'))" by simp
  from update_False_fields[OF this] assms(1) show ?thesis
    by (auto simp: game_invariant_def split: if_splits)
qed

lemma reachable_invariant:
  assumes "reachable L (s0, g1) (s, g)" and "game_invariant s0"
  shows "game_invariant s"
  using assms
proof (induction "(s, g)" arbitrary: s g rule: reachable.induct)
  case reach_start
  then show ?case by simp
next
  case (reach_turn s g d)
  then show ?case by (simp add: game_invariant_def)
next
  case (reach_other s g)
  then show ?case by simp
next
  case (reach_update s g r s' g')
  from game_invariant_update[OF reach_update.hyps(2)[OF reach_update.prems] reach_update.hyps(3)]
  show ?case .
qed

lemma init_invariant:
  "GameState_init L w h g0 = Some (Inr (s0, g1)) \<Longrightarrow> game_invariant s0"
  using init_fields[of L w h g0 s0 g1] by (simp add: game_invariant_def)

subsection \<open>A whole game\<close>

lemma long_init: "GameState_init long_lib 102 10 long_script = Some (Inr (long_start, drop 4 long_script))"
  by code_simp

lemma long_run: "run_ticks long_lib long_turns (long_start, drop 4 long_script) = Some (long_pre, [])"
  by code_simp

lemma long_win: "update long_lib long_pre [] = Some (Inr (True, long_post, []))"
  by code_simp

lemma long_reachable: "reachable long_lib (long_start, drop 4 long_script) (long_pre, [])"
  by (rule run_ticks_reachable[OF long_run reach_start])

lemma food_ahead_long: "food_ahead long_pre"
  by (simp add: food_ahead_def move_def Let_def get_position_def long_pre_def)

text \<open>
  C1 as stated fails: the call of \<^verbatim>\<open>update()\<close> on which the game is won returns
  true. The state \<open>long_pre\<close> is reached from the constructor in 49 ticks; it is not
  terminal; \<^verbatim>\<open>update()\<close> eats the fifth food of level 10 there, sets
  \<open>game_won\<close> and returns true.
\<close>

theorem update_winning_call_counterexample:
  "GameState_init long_lib 102 10 long_script = Some (Inr (long_start, drop 4 long_script)) \<and>
   reachable long_lib (long_start, drop 4 long_script) (long_pre, []) \<and>
   \<not> game_over long_pre \<and> \<not> game_won long_pre \<and>
   update long_lib long_pre [] = Some (Inr (True, long_post, [])) \<and> game_won long_post"
  using long_init long_reachable long_win by (simp add: long_pre_def long_post_def)

text \<open>
  C1, amended. \<^verbatim>\<open>update()\<close> returns false exactly when the state was already
  terminal before the call or the call sets \<open>game_over\<close>; a call that sets
  \<open>game_won\<close> returns true; and in a terminal state \<^verbatim>\<open>update()\<close> returns
  false and changes neither the state nor the generator.
\<close>

theorem update_return_value:
  "(game_over s \<or> game_won s \<longrightarrow> update L s g = Some (Inr (False, s, g))) \<and>
   (update L s g = Some (Inr (r, s', g')) \<longrightarrow>
      (r = False \<longleftrightarrow> game_over s \<or> game_won s \<or> game_over s') \<and>
      (\<not> game_won s \<and> game_won s' \<longrightarrow> r = True))"
proof (intro conjI impI)
  assume "game_over s \<or> game_won s"
  then show "update L s g = Some (Inr (False, s, g))" by (rule update_terminal)
next
  assume u: "update L s g = Some (Inr (r, s', g'))"
  then show "r = False \<longleftrightarrow> game_over s \<or> game_won s \<or> game_over s'"
    by (rule update_result_flag)
next
  assume u: "update L s g = Some (Inr (r, s', g'))" and w: "\<not> game_won s \<and> game_won s'"
  show "r = True"
  proof (rule ccontr)
    assume "r \<noteq> True"
    then have "r = False" by simp
    with u update_False_fields[of L s g s' g'] w show False by simp
  qed
qed

text \<open>The winning tick returns true; the next call returns false and changes nothing.\<close>

theorem update_return_value_witness:
  "update long_lib long_pre [] = Some (Inr (True, long_post, [])) \<and>
   \<not> game_won long_pre \<and> game_won long_post \<and> \<not> game_over long_post \<and>
   update long_lib long_post [] = Some (Inr (False, long_post, []))"
  using update_return_value [of long_post long_lib "[]" True long_post "[]"] long_win
  by (simp add: long_pre_def long_post_def)

text \<open>
  C10. In a game built by the constructor, on the call of \<^verbatim>\<open>update()\<close> that eats
  food without collision when the level is the maximum, 10, and this food reaches the
  threshold: the call returns true, \<open>game_won\<close> is set, the level stays 10,
  \<open>foods_eaten\<close> is not reset (it equals \<open>foods_per_level\<close>), and the score grows by
  the 10 points of the food only.
\<close>

theorem win_at_max_level:
  assumes "GameState_init L w h g0 = Some (Inr (s0, g1))" and "reachable L (s0, g1) (s, g)"
    and "\<not> game_over s" and "\<not> game_won s"
    and "update L s g = Some (Inr (r, s', g'))" and "\<not> game_over s'"
    and "food_ahead s" and "level s = 10" and "foods_per_level s \<le> foods_eaten s + 1"
  shows "r = True \<and> game_won s' \<and> level s' = 10 \<and> foods_eaten s' = foods_per_level s' \<and>
         foods_eaten s' = foods_eaten s + 1 \<and> score s' = score s + 10"
proof -
  from reachable_invariant[OF assms(2) init_invariant[OF assms(1)]] assms(4)
  have inv: "foods_per_level s = 5" "max_level s = 10" "foods_eaten s < 5"
    by (auto simp: game_invariant_def split: if_splits)
  from update_result_flag[OF assms(5)] assms(3,4,6) have r: "r = True" by simp
  with assms(5) have "update L s g = Some (Inr (True, s', g'))" by simp
  from update_True[OF this] assms(7-9) inv r show ?thesis by auto
qed

text \<open>The 50th tick of the game on the board of 102 by 10.\<close>

theorem win_at_max_level_witness:
  "GameState_init long_lib 102 10 long_script = Some (Inr (long_start, drop 4 long_script)) \<and>
   reachable long_lib (long_start, drop 4 long_script) (long_pre, []) \<and>
   update long_lib long_pre [] = Some (Inr (True, long_post, [])) \<and> food_ahead long_pre \<and>
   level long_pre = 10 \<and> foods_eaten long_pre = 4 \<and> foods_per_level long_pre = 5 \<and>
   game_won long_post \<and> level long_post = 10 \<and> foods_eaten long_post = 5 \<and>
   score long_post = score long_pre + 10"
  using win_at_max_level [OF long_init long_reachable _ _ long_win _ food_ahead_long]
    long_init long_reachable long_win food_ahead_long
  by (simp add: long_pre_def long_post_def)

subsection \<open>The progress text\<close>

lemma of_char_digit_char: "d < 10 \<Longrightarrow> (of_char (digit_char d) :: nat) = 48 + d"
  by (simp add: digit_char_def)

lemma is_digit_digit_char: "d < 10 \<Longrightarrow> is_digit (digit_char d)"
  by (simp add: is_digit_def of_char_digit_char)

lemma digit_char_not_minus: "d < 10 \<Longrightarrow> digit_char d \<noteq> CHR ''-''"
proof
  assume d: "d < 10" and e: "digit_char d = CHR ''-''"
  from of_char_digit_char[OF d] e have "(of_char (CHR ''-'') :: nat) = 48 + d" by simp
  then show False by simp
qed

lemma str_nat_digits: "\<forall>c \<in> set (str_nat n). is_digit c"
proof (induction n rule: str_nat.induct)
  case (1 n)
  show ?case
  proof (cases "n < 10")
    case True
    then show ?thesis by (subst str_nat.simps) (simp add: is_digit_digit_char)
  next
    case False
    with 1 show ?thesis by (subst str_nat.simps) (simp add: is_digit_digit_char)
  qed
qed

lemma str_nat_nonempty: "str_nat n \<noteq> []"
  by (subst str_nat.simps) simp

lemma hd_str_nat_not_minus: "hd (str_nat n) \<noteq> CHR ''-''"
proof -
  have "hd (str_nat n) \<in> set (str_nat n)" using str_nat_nonempty by simp
  with str_nat_digits have "is_digit (hd (str_nat n))" by blast
  then show ?thesis by (auto simp: is_digit_def)
qed

lemma nat_of_digits_snoc:
  "nat_of_digits (ds @ [c]) = 10 * nat_of_digits ds + (of_char c - 48)"
  by (simp add: nat_of_digits_def)

lemma nat_of_digits_str_nat: "nat_of_digits (str_nat n) = n"
proof (induction n rule: str_nat.induct)
  case (1 n)
  show ?case
  proof (cases "n < 10")
    case True
    then show ?thesis
      by (subst str_nat.simps) (simp add: nat_of_digits_def of_char_digit_char)
  next
    case False
    with 1 show ?thesis
      by (subst str_nat.simps) (simp add: nat_of_digits_snoc of_char_digit_char)
  qed
qed

lemma int_of_str_str_int: "int_of_str (str_int i) = i"
proof (cases "i < 0")
  case True
  then show ?thesis by (simp add: int_of_str_def str_int_def nat_of_digits_str_nat)
next
  case False
  obtain c ds where s: "str_nat (nat i) = c # ds"
    using str_nat_nonempty[of "nat i"] by (cases "str_nat (nat i)") auto
  with hd_str_nat_not_minus[of "nat i"] have "c \<noteq> CHR ''-''" by simp
  with False s nat_of_digits_str_nat[of "nat i"] show ?thesis
    by (simp add: int_of_str_def str_int_def)
qed

lemma str_int_num_chars: "\<forall>c \<in> set (str_int i). num_char c"
  using str_nat_digits by (auto simp: str_int_def num_char_def)

lemma takeWhile_str_int:
  "\<not> num_char c \<Longrightarrow> takeWhile num_char (str_int i @ c # rest) = str_int i"
  using str_int_num_chars[of i] by (simp add: takeWhile_append2)

lemma dropWhile_str_int:
  "\<not> num_char c \<Longrightarrow> dropWhile num_char (str_int i @ c # rest) = c # rest"
  using str_int_num_chars[of i] by (simp add: dropWhile_append2)

text \<open>
  C9 as stated fails: \<^verbatim>\<open>get_progress()\<close> returns a string, not a tuple. For the
  game just built on the 5 by 5 board the string is \<^verbatim>\<open>Level 1 - Food: 0/5\<close>.
\<close>

theorem get_progress_not_tuple_counterexample:
  "get_progress game5_start = PyStr ''Level 1 - Food: 0/5'' \<and>
   get_progress game5_start \<noteq>
     PyTuple [level game5_start, foods_eaten game5_start, foods_per_level game5_start]"
  by code_simp

text \<open>
  C9, amended. \<^verbatim>\<open>get_progress()\<close> returns the string made of \<^verbatim>\<open>Level \<close>, the
  level, \<^verbatim>\<open> - Food: \<close>, the foods eaten on this level, a slash and the foods per
  level, the numbers in decimal; the three numbers can be read back from it.
\<close>

theorem get_progress_string:
  "get_progress s =
     PyStr (''Level '' @ str_int (level s) @ '' - Food: '' @ str_int (foods_eaten s) @
            ''/'' @ str_int (foods_per_level s)) \<and>
   progress_fields (get_progress s) = Some (level s, foods_eaten s, foods_per_level s)"
proof -
  have sp: "\<not> num_char CHR '' ''" and sl: "\<not> num_char CHR ''/''"
    by (simp_all add: num_char_def is_digit_def)
  show ?thesis
    by (simp add: get_progress_def progress_fields_def Let_def int_of_str_str_int
          takeWhile_str_int[OF sp] dropWhile_str_int[OF sp]
          takeWhile_str_int[OF sl] dropWhile_str_int[OF sl])
qed

end
